theory Spec2Isabelle
  imports Complex_Main
begin

section \<open>Python strings\<close>

text \<open>
  A Python \<open>str\<close> is modelled as a \<open>string\<close>, one \<open>char\<close> per character. The model is
  that of ASCII text: \<open>str.upper\<close>, \<open>str.split\<close> and \<open>int\<close> treat further Unicode
  characters specially (other letters, other white space, other digits), which is left
  out. The double quote, the dollar sign, the keywords and the digits are all ASCII.
\<close>

definition dquote :: char where
  "dquote = CHR 0x22"

definition startswith :: "string \<Rightarrow> string \<Rightarrow> bool" where
  "startswith s p = (take (length p) s = p)"

definition endswith :: "string \<Rightarrow> string \<Rightarrow> bool" where
  "endswith s p = (length p \<le> length s \<and> drop (length s - length p) s = p)"

text \<open>\<open>s.replace(old, new)\<close> for a pattern \<open>old\<close> of one character.\<close>

definition str_replace1 :: "char \<Rightarrow> string \<Rightarrow> string \<Rightarrow> string" where
  "str_replace1 old new s = concat (map (\<lambda>c. if c = old then new else [c]) s)"

text \<open>
  \<open>s.upper()\<close>: the lower-case ASCII letters are replaced by their capitals, every other
  character stays.
\<close>

definition upper_table :: "(char \<times> char) list" where
  "upper_table = zip ''abcdefghijklmnopqrstuvwxyz'' ''ABCDEFGHIJKLMNOPQRSTUVWXYZ''"

definition upper_char :: "char \<Rightarrow> char" where
  "upper_char c = (case map_of upper_table c of Some u \<Rightarrow> u | None \<Rightarrow> c)"

definition py_upper :: "string \<Rightarrow> string" where
  "py_upper s = map upper_char s"

text \<open>
  \<open>s.split()\<close> with no argument: the words between runs of white space, no empty word.
  The ASCII characters for which \<open>str.isspace\<close> holds are tab, line feed, vertical tab,
  form feed, carriage return, the four separators \<open>0x1C\<close> to \<open>0x1F\<close> and the space.
\<close>

definition is_space :: "char \<Rightarrow> bool" where
  "is_space c = (c \<in> set [CHR 0x09, CHR 0x0A, CHR 0x0B, CHR 0x0C, CHR 0x0D,
                           CHR 0x1C, CHR 0x1D, CHR 0x1E, CHR 0x1F, CHR 0x20])"

fun py_split_from :: "string \<Rightarrow> string \<Rightarrow> string list" where
  "py_split_from w [] = (if w = [] then [] else [w])"
| "py_split_from w (c # cs) =
     (if is_space c then (if w = [] then py_split_from [] cs else w # py_split_from [] cs)
      else py_split_from (w @ [c]) cs)"

definition py_split :: "string \<Rightarrow> string list" where
  "py_split s = py_split_from [] s"

text \<open>\<open>sep.join(parts)\<close>.\<close>

fun py_join :: "string \<Rightarrow> string list \<Rightarrow> string" where
  "py_join sep [] = []"
| "py_join sep [x] = x"
| "py_join sep (x # y # ys) = x @ sep @ py_join sep (y # ys)"

section \<open>The SQL identifier quoter (data_processing.py)\<close>

definition quote_identifier :: "string \<Rightarrow> string" where
  "quote_identifier identifier =
     (if \<not> (startswith identifier [dquote] \<and> endswith identifier [dquote])
      then [dquote] @ str_replace1 dquote [] identifier @ [dquote]
      else identifier)"

definition after_keyword :: "string \<Rightarrow> bool" where
  "after_keyword previous_word = (py_upper previous_word \<in> set [''FROM'', ''JOIN''])"

text \<open>
  The loop of \<open>process_sql_query\<close>. \<open>previous_word\<close> is assigned the word as it was
  appended to \<open>processed_parts\<close>, that is after the quoting.
\<close>

fun process_parts :: "string \<Rightarrow> string list \<Rightarrow> string list" where
  "process_parts previous_word [] = []"
| "process_parts previous_word (word # sql_parts) =
     (let word' = (if after_keyword previous_word then quote_identifier word else word)
      in word' # process_parts word' sql_parts)"

definition process_sql_query :: "string \<Rightarrow> string" where
  "process_sql_query sql_query = py_join '' '' (process_parts [] (py_split sql_query))"

text \<open>
  The specification's wording of the same function, for comparison: a token is quoted
  when the token before it in the token list is a keyword.
\<close>

fun spec_quote_tokens :: "string \<Rightarrow> string list \<Rightarrow> string list" where
  "spec_quote_tokens preceding [] = []"
| "spec_quote_tokens preceding (token # tokens) =
     (if after_keyword preceding then quote_identifier token else token)
       # spec_quote_tokens token tokens"

definition preprocessQuery_spec :: "string \<Rightarrow> string" where
  "preprocessQuery_spec query = py_join '' '' (spec_quote_tokens [] (py_split query))"

section \<open>Integers as text\<close>

datatype py_error =
    NameError string
  | KeyError string
  | AttributeError
  | TypeError
  | ValueError
  | OverflowError

text \<open>
  \<open>int(s)\<close> for a string: white space at both ends is dropped (for ASCII text the
  interpreter uses the C notion: tab, line feed, vertical tab, form feed, carriage
  return, space), then comes an optional sign and decimal digits, where single
  underscores may stand between digits. Anything else is a \<open>ValueError\<close>. The
  interpreter's limit on the number of digits is left out.
\<close>

definition is_c_space :: "char \<Rightarrow> bool" where
  "is_c_space c = (c \<in> set [CHR 0x09, CHR 0x0A, CHR 0x0B, CHR 0x0C, CHR 0x0D, CHR 0x20])"

definition strip_c_space :: "string \<Rightarrow> string" where
  "strip_c_space s = rev (dropWhile is_c_space (rev (dropWhile is_c_space s)))"

definition digit_table :: "(char \<times> nat) list" where
  "digit_table = zip ''0123456789'' [0, 1, 2, 3, 4, 5, 6, 7, 8, 9]"

definition digit_val :: "char \<Rightarrow> nat option" where
  "digit_val c = map_of digit_table c"

fun parse_digits :: "bool \<Rightarrow> nat \<Rightarrow> string \<Rightarrow> nat option" where
  "parse_digits after_underscore acc [] = (if after_underscore then None else Some acc)"
| "parse_digits after_underscore acc (c # cs) =
     (if c = CHR ''_'' then (if after_underscore then None else parse_digits True acc cs)
      else (case digit_val c of
              None \<Rightarrow> None
            | Some v \<Rightarrow> parse_digits False (acc * 10 + v) cs))"

definition parse_unsigned :: "string \<Rightarrow> nat option" where
  "parse_unsigned s =
     (case s of
        [] \<Rightarrow> None
      | c # cs \<Rightarrow> (case digit_val c of None \<Rightarrow> None | Some v \<Rightarrow> parse_digits False v cs))"

definition parse_int :: "string \<Rightarrow> int option" where
  "parse_int s =
     (case strip_c_space s of
        [] \<Rightarrow> None
      | c # cs \<Rightarrow>
          if c = CHR ''-'' then map_option (\<lambda>n. - int n) (parse_unsigned cs)
          else if c = CHR ''+'' then map_option int (parse_unsigned cs)
          else map_option int (parse_unsigned (c # cs)))"

definition int_of_str :: "string \<Rightarrow> py_error + int" where
  "int_of_str s = (case parse_int s of None \<Rightarrow> Inl ValueError | Some n \<Rightarrow> Inr n)"

text \<open>\<open>str(n)\<close> for an integer: its decimal digits, with a minus sign when negative.\<close>

definition digit_char :: "nat \<Rightarrow> char" where
  "digit_char d = ''0123456789'' ! d"

fun str_nat :: "nat \<Rightarrow> string" where
  "str_nat n = (if n < 10 then [digit_char n] else str_nat (n div 10) @ [digit_char (n mod 10)])"

declare str_nat.simps [simp del]

definition str_int :: "int \<Rightarrow> string" where
  "str_int i = (if i < 0 then CHR ''-'' # str_nat (nat (- i)) else str_nat (nat i))"

section \<open>Cell values\<close>

text \<open>
  The value of one cell of a column, as the functions of the program see it.
  \<^item> \<open>Missing\<close> is the marker of a missing entry, \<open>NaN\<close>; \<open>None\<close> (a JSON \<open>null\<close>) is the
    same to \<open>pd.isna\<close>, \<open>Series.map\<close> and \<open>Series.fillna\<close>, and the model does not
    tell the two apart.
  \<^item> \<open>Num q\<close> is a finite number. pandas keeps a numeric column as integers or as
    floats and moves between the two as missing entries come and go, so the model
    keeps the numeric value only. Every float is a rational number; what is proved
    for every rational holds for every float.
  \<^item> \<open>Infinity positive\<close> is the float \<open>inf\<close> or \<open>-inf\<close>.
\<close>

datatype cell = Missing | Num rat | Infinity bool | Str string | Bool bool

type_synonym series = "cell list"

definition isna :: "cell \<Rightarrow> bool" where
  "isna v = (v = Missing)"

definition trunc :: "rat \<Rightarrow> int" where
  "trunc q = (if 0 \<le> q then \<lfloor>q\<rfloor> else \<lceil>q\<rceil>)"

definition is_integer :: "rat \<Rightarrow> bool" where
  "is_integer q = (rat_of_int \<lfloor>q\<rfloor> = q)"

text \<open>
  What the program uses of pandas and of the interpreter without defining it, and what
  no function over rationals can compute faithfully, is a parameter:
  \<^item> \<open>astype\<close>: \<open>Series.astype(name)\<close>, the coerced column or the error it raises;
  \<^item> \<open>float_str\<close>: \<open>str(x)\<close> for a finite float that is not a whole number;
  \<^item> \<open>float_of_str\<close>: \<open>float(s)\<close> for a string, the value or \<open>None\<close> for a \<open>ValueError\<close>;
  \<^item> \<open>int_is_integer\<close>: whether \<open>bool\<close> (through \<open>int\<close>) has the method \<open>is_integer\<close>,
    which holds from Python 3.12 onwards.
\<close>

record py_runtime =
  astype :: "string \<Rightarrow> series \<Rightarrow> py_error + series"
  float_str :: "rat \<Rightarrow> string"
  float_of_str :: "string \<Rightarrow> cell option"
  int_is_integer :: bool

text \<open>A runtime for concrete runs that reach none of these library calls.\<close>

definition bare_runtime :: py_runtime where
  "bare_runtime =
     \<lparr>astype = (\<lambda>name column. Inl TypeError), float_str = (\<lambda>q. []),
      float_of_str = (\<lambda>s. None), int_is_integer = True\<rparr>"

section \<open>Column value normalizers (data_processing.py)\<close>

definition remove_dollar_sign :: "cell \<Rightarrow> py_error + int" where
  "remove_dollar_sign v =
     (case v of
        Str s \<Rightarrow> int_of_str (str_replace1 CHR ''$'' [] s)
      | Num q \<Rightarrow> Inr (trunc q)
      | Bool b \<Rightarrow> Inr (if b then 1 else 0)
      | Missing \<Rightarrow> Inl ValueError
      | Infinity positive \<Rightarrow> Inl OverflowError)"

definition remove_dollar_sign_float :: "py_runtime \<Rightarrow> cell \<Rightarrow> py_error + cell" where
  "remove_dollar_sign_float rt v =
     (case v of
        Str s \<Rightarrow> (case float_of_str rt (str_replace1 CHR ''$'' [] s) of
                   None \<Rightarrow> Inl ValueError
                 | Some x \<Rightarrow> Inr x)
      | Bool b \<Rightarrow> Inr (Num (if b then 1 else 0))
      | _ \<Rightarrow> Inr v)"

text \<open>
  \<open>process_column\<close> asks the value for \<open>is_integer\<close>, a method of floats. A number is
  taken as the float it is in a column with missing entries; a text has no such method,
  a truth value has it where \<open>int\<close> has it.
\<close>

definition process_column :: "py_runtime \<Rightarrow> cell \<Rightarrow> py_error + string" where
  "process_column rt column_nm =
     (if isna column_nm then Inr ''N/A''
      else (case column_nm of
              Num q \<Rightarrow> Inr (if is_integer q then str_int (trunc q) else float_str rt q)
            | Infinity positive \<Rightarrow> Inr (if positive then ''inf'' else ''-inf'')
            | Bool b \<Rightarrow> (if int_is_integer rt then Inr (str_int (if b then 1 else 0))
                         else Inl AttributeError)
            | _ \<Rightarrow> Inl AttributeError))"

text \<open>
  The specification's wording of \<open>stripCurrencyToInt\<close>, for comparison: one leading
  currency symbol is dropped from a text, and the rest is parsed.
\<close>

definition strip_leading_currency :: "string \<Rightarrow> string" where
  "strip_leading_currency s = (if startswith s ''$'' then drop 1 s else s)"

definition stripCurrencyToInt_spec :: "cell \<Rightarrow> py_error + int" where
  "stripCurrencyToInt_spec v =
     (case v of
        Str s \<Rightarrow> int_of_str (strip_leading_currency s)
      | _ \<Rightarrow> remove_dollar_sign v)"

section \<open>Text utilities (utilities.py)\<close>

text \<open>\<open>text.split(". ")\<close>: the pieces between the occurrences of a full stop and a space.\<close>

fun split_sentences :: "string \<Rightarrow> string \<Rightarrow> string list" where
  "split_sentences piece [] = [piece]"
| "split_sentences piece [c] = [piece @ [c]]"
| "split_sentences piece (c # d # text) =
     (if c = CHR ''.'' \<and> d = CHR '' '' then piece # split_sentences [] text
      else split_sentences (piece @ [c]) (d # text))"

definition remove_incomplete_sentence :: "string \<Rightarrow> string" where
  "remove_incomplete_sentence text =
     (let sentences = split_sentences [] text;
          sentences = (if \<not> endswith text ''.'' then butlast sentences else sentences)
      in py_join ''. '' sentences)"

section \<open>The names of the module data_processing\<close>

text \<open>
  \<open>globals()\<close> inside \<open>apply_transformations\<close> is the name space of the module
  \<open>data_processing\<close>: the four modules and the function it imports, and the functions it
  defines. Nothing in the program assigns to it after the module is loaded. The module
  does not import \<open>streamlit\<close>, so the name \<open>st\<close> is not among them. The entries that
  the interpreter adds to every module (\<open>__name__\<close>, \<open>__doc__\<close>, \<open>__file__\<close> and the
  like), none of which is a function, are left out.
\<close>

datatype func =
    F_remove_incomplete_sentence
  | F_apply_transformations
  | F_chatGPT_analysis
  | F_quote_identifier
  | F_process_sql_query
  | F_remove_dollar_sign
  | F_remove_dollar_sign_float
  | F_process_column
  | F_to_csv_download_link

datatype py_global = PyModule string | PyFunction func

definition module_bindings :: "(string \<times> py_global) list" where
  "module_bindings =
     [(''pd'', PyModule ''pandas''),
      (''json'', PyModule ''json''),
      (''openai'', PyModule ''openai''),
      (''base64'', PyModule ''base64''),
      (''remove_incomplete_sentence'', PyFunction F_remove_incomplete_sentence),
      (''apply_transformations'', PyFunction F_apply_transformations),
      (''chatGPT_analysis'', PyFunction F_chatGPT_analysis),
      (''quote_identifier'', PyFunction F_quote_identifier),
      (''process_sql_query'', PyFunction F_process_sql_query),
      (''remove_dollar_sign'', PyFunction F_remove_dollar_sign),
      (''remove_dollar_sign_float'', PyFunction F_remove_dollar_sign_float),
      (''process_column'', PyFunction F_process_column),
      (''to_csv_download_link'', PyFunction F_to_csv_download_link)]"

definition globals_get :: "string \<Rightarrow> py_global option" where
  "globals_get name = map_of module_bindings name"

text \<open>
  Calling a module-level object with one cell as its only argument, as \<open>Series.apply\<close>
  does. A module is not callable; \<open>apply_transformations\<close> and \<open>to_csv_download_link\<close>
  want two arguments; \<open>chatGPT_analysis\<close> first reads \<open>df.sample\<close>, which no cell has;
  the string functions read a method of \<open>str\<close>.
\<close>

definition on_str :: "(string \<Rightarrow> string) \<Rightarrow> cell \<Rightarrow> py_error + cell" where
  "on_str f v = (case v of Str s \<Rightarrow> Inr (Str (f s)) | _ \<Rightarrow> Inl AttributeError)"

definition call_function :: "py_runtime \<Rightarrow> func \<Rightarrow> cell \<Rightarrow> py_error + cell" where
  "call_function rt f v =
     (case f of
        F_remove_incomplete_sentence \<Rightarrow> on_str remove_incomplete_sentence v
      | F_apply_transformations \<Rightarrow> Inl TypeError
      | F_chatGPT_analysis \<Rightarrow> Inl AttributeError
      | F_quote_identifier \<Rightarrow> on_str quote_identifier v
      | F_process_sql_query \<Rightarrow> on_str process_sql_query v
      | F_remove_dollar_sign \<Rightarrow> map_sum id (\<lambda>n. Num (rat_of_int n)) (remove_dollar_sign v)
      | F_remove_dollar_sign_float \<Rightarrow> remove_dollar_sign_float rt v
      | F_process_column \<Rightarrow> map_sum id Str (process_column rt v)
      | F_to_csv_download_link \<Rightarrow> Inl TypeError)"

definition call_global :: "py_runtime \<Rightarrow> py_global \<Rightarrow> cell \<Rightarrow> py_error + cell" where
  "call_global rt g v =
     (case g of PyModule name \<Rightarrow> Inl TypeError | PyFunction f \<Rightarrow> call_function rt f v)"


section \<open>Columns and datasets\<close>

text \<open>
  \<open>Series.map(mapping)\<close> with a dictionary looks every value up and gives \<open>NaN\<close> where
  there is no such key. The configuration is read from JSON, so the keys are strings and
  only a text can be one of them. \<open>Series.fillna(other)\<close> puts the value of \<open>other\<close> at
  the same position wherever the value is missing. \<open>Series.apply(f)\<close> calls \<open>f\<close> on the
  values in order and stops at the first exception.
\<close>

definition mapping_get :: "(string \<rightharpoonup> cell) \<Rightarrow> cell \<Rightarrow> cell option" where
  "mapping_get mapping v = (case v of Str s \<Rightarrow> mapping s | _ \<Rightarrow> None)"

definition series_map :: "(string \<rightharpoonup> cell) \<Rightarrow> series \<Rightarrow> series" where
  "series_map mapping column =
     map (\<lambda>v. case mapping_get mapping v of Some w \<Rightarrow> w | None \<Rightarrow> Missing) column"

definition fillna :: "series \<Rightarrow> series \<Rightarrow> series" where
  "fillna column other = map (\<lambda>(v, w). if isna v then w else v) (zip column other)"

fun series_apply :: "(cell \<Rightarrow> py_error + cell) \<Rightarrow> series \<Rightarrow> py_error + series" where
  "series_apply f [] = Inr []"
| "series_apply f (v # vs) =
     (case f v of
        Inl e \<Rightarrow> Inl e
      | Inr w \<Rightarrow> (case series_apply f vs of Inl e \<Rightarrow> Inl e | Inr ws \<Rightarrow> Inr (w # ws)))"

text \<open>
  A dataset: its columns in order, each a name and the values. \<open>df[column]\<close> reads a
  column and raises \<open>KeyError\<close> when there is none; \<open>df[column] = values\<close> replaces the
  column where it stands, or adds it at the end. The names of the columns are taken to
  be distinct, as they are in a file that pandas has read.
\<close>

type_synonym dataframe = "(string \<times> series) list"

definition columns :: "dataframe \<Rightarrow> string list" where
  "columns df = map fst df"

definition get_column :: "dataframe \<Rightarrow> string \<Rightarrow> py_error + series" where
  "get_column df column =
     (case map_of df column of None \<Rightarrow> Inl (KeyError column) | Some values \<Rightarrow> Inr values)"

fun set_column :: "string \<Rightarrow> series \<Rightarrow> dataframe \<Rightarrow> dataframe" where
  "set_column column values [] = [(column, values)]"
| "set_column column values ((c, old) # df) =
     (if c = column then (column, values) # df else (c, old) # set_column column values df)"

section \<open>The transformation engine (data_processing.py)\<close>

text \<open>
  The configuration as \<open>json.load\<close> gives it: the columns in the order of the file, each
  with its operations. An operation that is absent or \<open>null\<close> is \<open>None\<close>. In the
  \<open>apply\<close> object a key that is absent is \<open>None\<close>, and reading it raises \<open>KeyError\<close>.
\<close>

record apply_config =
  ac_type :: "string option"
  ac_function :: "string option"

record transformations =
  t_map :: "(string \<rightharpoonup> cell) option"
  t_astype :: "string option"
  t_apply :: "apply_config option"

type_synonym config = "(string \<times> transformations) list"

text \<open>
  The function works on the DataFrame it is given, column by column, assignment by
  assignment. A run is described by the exception that ended it, if one did, and by the
  state in which it left the DataFrame.
\<close>

type_synonym outcome = "py_error option \<times> dataframe"

definition and_then :: "outcome \<Rightarrow> (dataframe \<Rightarrow> outcome) \<Rightarrow> outcome" where
  "and_then r k = (case r of (None, df) \<Rightarrow> k df | (Some e, df) \<Rightarrow> (Some e, df))"

definition assign_column :: "string \<Rightarrow> py_error + series \<Rightarrow> dataframe \<Rightarrow> outcome" where
  "assign_column column values df =
     (case values of Inl e \<Rightarrow> (Some e, df) | Inr vs \<Rightarrow> (None, set_column column vs df))"

definition bind_series :: "py_error + series \<Rightarrow> (series \<Rightarrow> py_error + series) \<Rightarrow> py_error + series" where
  "bind_series r k = (case r of Inl e \<Rightarrow> Inl e | Inr vs \<Rightarrow> k vs)"

text \<open>
  \<open>st.warning(...)\<close>: the name \<open>st\<close> is bound nowhere in the module, so evaluating it
  raises \<open>NameError\<close>, and no warning is shown.
\<close>

definition st_warning :: "string \<Rightarrow> dataframe \<Rightarrow> outcome" where
  "st_warning message df = (Some (NameError ''st''), df)"

definition transform_map :: "string \<Rightarrow> (string \<rightharpoonup> cell) option \<Rightarrow> dataframe \<Rightarrow> outcome" where
  "transform_map column mapping df =
     (case mapping of
        None \<Rightarrow> (None, df)
      | Some m \<Rightarrow>
          assign_column column
            (bind_series (get_column df column) (\<lambda>values.
             bind_series (get_column df column) (\<lambda>original.
               Inr (fillna (series_map m values) original)))) df)"

definition transform_astype :: "py_runtime \<Rightarrow> string \<Rightarrow> string option \<Rightarrow> dataframe \<Rightarrow> outcome" where
  "transform_astype rt column target df =
     (case target of
        None \<Rightarrow> (None, df)
      | Some name \<Rightarrow>
          assign_column column (bind_series (get_column df column) (astype rt name)) df)"

definition transform_apply :: "py_runtime \<Rightarrow> string \<Rightarrow> apply_config option \<Rightarrow> dataframe \<Rightarrow> outcome" where
  "transform_apply rt column apply_config df =
     (case apply_config of
        None \<Rightarrow> (None, df)
      | Some ac \<Rightarrow>
          (case ac_type ac of
             None \<Rightarrow> (Some (KeyError ''type''), df)
           | Some kind \<Rightarrow>
               if kind = ''custom'' then
                 (case ac_function ac of
                    None \<Rightarrow> (Some (KeyError ''function''), df)
                  | Some function_name \<Rightarrow>
                      (case globals_get function_name of
                         Some custom_function \<Rightarrow>
                           assign_column column
                             (bind_series (get_column df column)
                                (series_apply (call_global rt custom_function))) df
                       | None \<Rightarrow> st_warning function_name df))
               else (None, df)))"

definition transform_column :: "py_runtime \<Rightarrow> string \<Rightarrow> transformations \<Rightarrow> dataframe \<Rightarrow> outcome" where
  "transform_column rt column t df =
     and_then (and_then (transform_map column (t_map t) df)
                        (transform_astype rt column (t_astype t)))
              (transform_apply rt column (t_apply t))"

fun apply_transformations :: "py_runtime \<Rightarrow> dataframe \<Rightarrow> config \<Rightarrow> outcome" where
  "apply_transformations rt df [] = (None, df)"
| "apply_transformations rt df ((column, t) # config) =
     (if column \<in> set (columns df) then
        (case transform_column rt column t df of
           (None, df') \<Rightarrow> apply_transformations rt df' config
         | (Some e, df') \<Rightarrow> (Some e, df'))
      else st_warning column df)"

section \<open>The dataset as an object (data_processing.py, streamlit_interface.py)\<close>

text \<open>
  DataFrames are objects: a store gives the state of each, and a variable holds a
  reference. \<open>apply_transformations\<close> assigns to the columns of the object it is given
  and returns that object; when an exception ends it, the assignments made so far stay.
\<close>

type_synonym ref = nat

type_synonym store = "ref \<Rightarrow> dataframe"

definition apply_transformations_call ::
  "py_runtime \<Rightarrow> store \<Rightarrow> ref \<Rightarrow> config \<Rightarrow> (py_error + ref) \<times> store" where
  "apply_transformations_call rt h df config =
     (case apply_transformations rt (h df) config of
        (None, d) \<Rightarrow> (Inr df, h(df := d))
      | (Some e, d) \<Rightarrow> (Inl e, h(df := d)))"

text \<open>
  The two module-level variables of \<open>streamlit_interface\<close> and the handler of the button
  "Apply Transformations": when a dataset and a JSON file have been uploaded, it calls
  \<open>apply_transformations(original_df, config)\<close> and assigns the result to \<open>trans_df\<close>.
  A file that is not valid JSON leaves \<open>config = None\<close>, whose \<open>items\<close> the call
  cannot read.
\<close>

record session =
  original_df :: "ref option"
  trans_df :: "ref option"

datatype uploaded_json = No_file | Invalid_json | Loaded config

definition apply_button ::
  "py_runtime \<Rightarrow> store \<Rightarrow> session \<Rightarrow> uploaded_json \<Rightarrow> py_error option \<times> store \<times> session" where
  "apply_button rt h s upload =
     (case original_df s of
        None \<Rightarrow> (None, h, s)
      | Some df \<Rightarrow>
          (case upload of
             No_file \<Rightarrow> (None, h, s)
           | Invalid_json \<Rightarrow> (Some AttributeError, h, s)
           | Loaded config \<Rightarrow>
               (case apply_transformations_call rt h df config of
                  (Inr result, h') \<Rightarrow> (None, h', s\<lparr>trans_df := Some result\<rparr>)
                | (Inl e, h') \<Rightarrow> (Some e, h', s))))"

section \<open>Properties of the SQL identifier quoter\<close>

lemmas sql_defs = process_sql_query_def preprocessQuery_spec_def py_split_def is_space_def
  after_keyword_def py_upper_def upper_char_def upper_table_def quote_identifier_def
  startswith_def endswith_def str_replace1_def dquote_def

lemma str_replace1_delete: "str_replace1 c [] s = filter (\<lambda>x. x \<noteq> c) s"
  by (induction s) (simp_all add: str_replace1_def)

lemma quote_identifier_wrapped:
  "startswith (quote_identifier x) [dquote] \<and> endswith (quote_identifier x) [dquote]"
  by (simp add: quote_identifier_def startswith_def endswith_def)

text \<open>
  C4. \<open>quote_identifier\<close> is idempotent, and a string that is not wrapped in double
  quotes at both ends is stripped of every double quote and wrapped in one new pair.
\<close>

theorem quote_identifier_idempotent_and_wraps:
  "quote_identifier (quote_identifier x) = quote_identifier x \<and>
   (\<not> (startswith x [dquote] \<and> endswith x [dquote]) \<longrightarrow>
      quote_identifier x = [dquote] @ filter (\<lambda>c. c \<noteq> dquote) x @ [dquote])"
proof
  have "startswith (quote_identifier x) [dquote] \<and> endswith (quote_identifier x) [dquote]"
    by (rule quote_identifier_wrapped)
  then show "quote_identifier (quote_identifier x) = quote_identifier x"
    by (subst quote_identifier_def) simp
next
  show "\<not> (startswith x [dquote] \<and> endswith x [dquote]) \<longrightarrow>
      quote_identifier x = [dquote] @ filter (\<lambda>c. c \<noteq> dquote) x @ [dquote]"
    by (simp add: quote_identifier_def str_replace1_delete)
qed

text \<open>An identifier with a double quote inside: the quote goes, a new pair comes.\<close>

theorem quote_identifier_idempotent_and_wraps_witness:
  "quote_identifier (quote_identifier ''my\"table'') = quote_identifier ''my\"table'' \<and>
   \<not> (startswith ''my\"table'' [dquote] \<and> endswith ''my\"table'' [dquote]) \<and>
   quote_identifier ''my\"table'' = ''\"mytable\"''"
  using quote_identifier_idempotent_and_wraps [of "''my\"table''"]
  by (simp add: quote_identifier_def str_replace1_def startswith_def endswith_def dquote_def)

lemma process_parts_length: "length (process_parts p ts) = length ts"
  by (induction ts arbitrary: p) (simp_all add: Let_def)

lemma process_parts_nth:
  "i < length ts \<Longrightarrow>
   process_parts p ts ! i =
     (if after_keyword (if i = 0 then p else process_parts p ts ! (i - 1))
      then quote_identifier (ts ! i) else ts ! i)"
proof (induction ts arbitrary: p i)
  case Nil
  then show ?case by simp
next
  case (Cons t ts)
  show ?case
  proof (cases i)
    case 0
    then show ?thesis by (simp add: Let_def)
  next
    case (Suc j)
    with Cons.prems have j: "j < length ts" by simp
    show ?thesis
      using Cons.IH [OF j] Suc by (cases j) (simp_all add: Let_def)
  qed
qed

text \<open>
  C3 as it is worded does not hold. After two keywords in a row the second one is
  quoted, and the word that follows it is compared with the quoted form, which is no
  keyword: it stays as it is, although the token before it is \<open>JOIN\<close>.
\<close>

theorem process_sql_query_consecutive_keywords:
  "process_sql_query ''SELECT * FROM JOIN x'' = ''SELECT * FROM \"JOIN\" x'' \<and>
   preprocessQuery_spec ''SELECT * FROM JOIN x'' = ''SELECT * FROM \"JOIN\" \"x\"'' \<and>
   process_sql_query ''SELECT * FROM JOIN x'' \<noteq> preprocessQuery_spec ''SELECT * FROM JOIN x''"
  by (simp add: sql_defs)

text \<open>
  C3, amended. \<open>process_sql_query\<close> splits the query at white space, goes through the
  words from left to right, applies \<open>quote_identifier\<close> to exactly the words whose
  predecessor, in the form in which it was emitted (after its own quoting, if any), is
  \<open>FROM\<close> or \<open>JOIN\<close> in any case, and joins the emitted words with single spaces. The two
  queries of the specification come out as it says.
\<close>

theorem process_sql_query_quotes_after_emitted_keyword:
  "process_sql_query q = py_join '' '' (process_parts [] (py_split q)) \<and>
   length (process_parts [] (py_split q)) = length (py_split q) \<and>
   (\<forall>i < length (py_split q).
      process_parts [] (py_split q) ! i =
        (if after_keyword (if i = 0 then [] else process_parts [] (py_split q) ! (i - 1))
         then quote_identifier (py_split q ! i) else py_split q ! i)) \<and>
   process_sql_query ''SELECT * FROM orders'' = ''SELECT * FROM \"orders\"'' \<and>
   process_sql_query ''SELECT * FROM \"orders\" JOIN items'' =
     ''SELECT * FROM \"orders\" JOIN \"items\"''"
proof -
  have a: "process_sql_query q = py_join '' '' (process_parts [] (py_split q))"
    by (simp add: process_sql_query_def)
  have b: "length (process_parts [] (py_split q)) = length (py_split q)"
    by (rule process_parts_length)
  have c: "\<forall>i < length (py_split q).
      process_parts [] (py_split q) ! i =
        (if after_keyword (if i = 0 then [] else process_parts [] (py_split q) ! (i - 1))
         then quote_identifier (py_split q ! i) else py_split q ! i)"
    using process_parts_nth by blast
  have d: "process_sql_query ''SELECT * FROM orders'' = ''SELECT * FROM \"orders\"''"
    by (simp add: sql_defs)
  have e: "process_sql_query ''SELECT * FROM \"orders\" JOIN items'' =
     ''SELECT * FROM \"orders\" JOIN \"items\"''"
    by (simp add: sql_defs)
  from a b c d e show ?thesis by blast
qed

text \<open>A query in lower case with an alias: the table is quoted, the alias is not.\<close>

theorem process_sql_query_quotes_after_emitted_keyword_witness:
  "py_split ''select * from Orders o'' = [''select'', ''*'', ''from'', ''Orders'', ''o''] \<and>
   (3::nat) < length (py_split ''select * from Orders o'') \<and>
   process_parts [] (py_split ''select * from Orders o'') ! 2 = ''from'' \<and>
   process_parts [] (py_split ''select * from Orders o'') ! 3 = ''\"Orders\"'' \<and>
   process_parts [] (py_split ''select * from Orders o'') ! 4 = ''o'' \<and>
   process_sql_query ''select * from Orders o'' = ''select * from \"Orders\" o''"
  using process_sql_query_quotes_after_emitted_keyword [of "''select * from Orders o''"]
  by (simp add: sql_defs)

section \<open>Properties of the column value normalizers\<close>

lemma trunc_magnitude: "\<bar>rat_of_int (trunc q)\<bar> \<le> \<bar>q\<bar>"
proof (cases "0 \<le> q")
  case True
  then have "0 \<le> \<lfloor>q\<rfloor>" by simp
  moreover have "rat_of_int \<lfloor>q\<rfloor> \<le> q" by (rule of_int_floor_le)
  ultimately show ?thesis using True by (simp add: trunc_def)
next
  case False
  then have "\<lceil>q\<rceil> \<le> 0" by (simp add: ceiling_le_zero)
  then have "rat_of_int \<lceil>q\<rceil> \<le> 0" by simp
  moreover have "q \<le> rat_of_int \<lceil>q\<rceil>" by (rule le_of_int_ceiling)
  ultimately show ?thesis using False by (simp add: trunc_def)
qed

lemma trunc_distance: "\<bar>q - rat_of_int (trunc q)\<bar> < 1"
proof (cases "0 \<le> q")
  case True
  have "rat_of_int \<lfloor>q\<rfloor> \<le> q" and "q < rat_of_int \<lfloor>q\<rfloor> + 1"
    by linarith+
  then have "\<bar>q - rat_of_int \<lfloor>q\<rfloor>\<bar> < 1" by linarith
  then show ?thesis using True by (simp add: trunc_def)
next
  case False
  have "rat_of_int \<lceil>q\<rceil> - 1 < q" and "q \<le> rat_of_int \<lceil>q\<rceil>"
    by linarith+
  then have "\<bar>q - rat_of_int \<lceil>q\<rceil>\<bar> < 1" by linarith
  then show ?thesis using False by (simp add: trunc_def)
qed

text \<open>
  C7 as it is worded does not hold. A dollar sign that does not lead the text is removed
  as well: \<open>1$2\<close> becomes 12, where dropping a leading symbol only would leave a text
  that is no integer.
\<close>

theorem dollar_sign_inside_number:
  "remove_dollar_sign (Str ''1$2'') = Inr 12 \<and>
   stripCurrencyToInt_spec (Str ''1$2'') = Inl ValueError"
  by (simp add: remove_dollar_sign_def stripCurrencyToInt_spec_def strip_leading_currency_def
      startswith_def str_replace1_def int_of_str_def parse_int_def strip_c_space_def
      is_c_space_def parse_unsigned_def digit_val_def digit_table_def)

text \<open>
  C7, amended. \<open>remove_dollar_sign\<close> removes every dollar sign of a text, wherever it
  stands, and parses what is left as an integer; a finite number is truncated toward
  zero; and a text fails, with \<open>ValueError\<close>, exactly when what is left of it is not the
  text of an integer.
\<close>

theorem remove_dollar_sign_cases:
  "remove_dollar_sign (Str s) = int_of_str (filter (\<lambda>c. c \<noteq> CHR ''$'') s) \<and>
   ((\<exists>e. remove_dollar_sign (Str s) = Inl e) \<longleftrightarrow>
      parse_int (filter (\<lambda>c. c \<noteq> CHR ''$'') s) = None) \<and>
   (remove_dollar_sign (Str s) = Inl ValueError \<longleftrightarrow>
      parse_int (filter (\<lambda>c. c \<noteq> CHR ''$'') s) = None) \<and>
   remove_dollar_sign (Num q) = Inr (trunc q) \<and>
   \<bar>rat_of_int (trunc q)\<bar> \<le> \<bar>q\<bar> \<and> \<bar>q - rat_of_int (trunc q)\<bar> < 1"
proof -
  have a: "remove_dollar_sign (Str s) = int_of_str (filter (\<lambda>c. c \<noteq> CHR ''$'') s)"
    by (simp add: remove_dollar_sign_def str_replace1_delete)
  have b: "(\<exists>e. remove_dollar_sign (Str s) = Inl e) \<longleftrightarrow>
      parse_int (filter (\<lambda>c. c \<noteq> CHR ''$'') s) = None"
    unfolding a by (simp add: int_of_str_def split: option.splits)
  have c: "remove_dollar_sign (Str s) = Inl ValueError \<longleftrightarrow>
      parse_int (filter (\<lambda>c. c \<noteq> CHR ''$'') s) = None"
    unfolding a by (simp add: int_of_str_def split: option.splits)
  have d: "remove_dollar_sign (Num q) = Inr (trunc q)"
    by (simp add: remove_dollar_sign_def)
  from a b c d trunc_magnitude trunc_distance show ?thesis by blast
qed

text \<open>A price with a dollar sign and a negative number with a fraction.\<close>

theorem remove_dollar_sign_cases_witness:
  "remove_dollar_sign (Str ''$1250'') = Inr 1250 \<and>
   remove_dollar_sign (Str ''$12.50'') = Inl ValueError \<and>
   remove_dollar_sign (Num (- 7 / 2)) = Inr (- 3)"
proof -
  have t: "trunc (- 7 / 2) = - 3"
    by code_simp
  have p: "parse_int ''1250'' = Some 1250"
    by (simp add: parse_int_def strip_c_space_def is_c_space_def parse_unsigned_def
        digit_val_def digit_table_def)
  have n: "parse_int ''12.50'' = None"
    by (simp add: parse_int_def strip_c_space_def is_c_space_def parse_unsigned_def
        digit_val_def digit_table_def)
  show ?thesis
    using remove_dollar_sign_cases [of "''$1250''" "- 7 / 2"]
      remove_dollar_sign_cases [of "''$12.50''" 0] t p n
    by (simp add: int_of_str_def)
qed

text \<open>
  C8. On a text, such as the name of a column, \<open>process_column\<close> raises: a text has no
  method \<open>is_integer\<close>.
\<close>

theorem process_column_text_raises:
  "process_column rt (Str s) = Inl AttributeError"
  by (simp add: process_column_def isna_def)

section \<open>Properties of the transformation engine\<close>

lemmas engine_defs = columns_def transform_column_def transform_map_def transform_astype_def
  transform_apply_def and_then_def assign_column_def bind_series_def get_column_def
  st_warning_def

lemmas map_defs = series_map_def mapping_get_def fillna_def isna_def






text \<open>
  C2. A configured column that the dataset does not have ends the call with
  \<open>NameError\<close>: no warning is shown, no dataset is returned, and the column configured
  after it is not processed.
\<close>

theorem missing_column_raises_NameError:
  "apply_transformations rt [(''a'', [Str ''x''])]
     [(''nonexistent'', \<lparr>t_map = None, t_astype = None, t_apply = None\<rparr>),
      (''a'', \<lparr>t_map = Some [''x'' \<mapsto> Str ''y''], t_astype = None, t_apply = None\<rparr>)]
   = (Some (NameError ''st''), [(''a'', [Str ''x''])])"
  by (simp add: engine_defs)

text \<open>
  C6. An \<open>apply\<close> operation that names a function the module does not have ends the
  call with \<open>NameError\<close> as well.
\<close>

theorem unknown_function_raises_NameError:
  "globals_get ''no_such_function'' = None \<and>
   apply_transformations rt [(''a'', [Str ''x''])]
     [(''a'', \<lparr>t_map = None, t_astype = None,
               t_apply = Some \<lparr>ac_type = Some ''custom'',
                                ac_function = Some ''no_such_function''\<rparr>\<rparr>)]
   = (Some (NameError ''st''), [(''a'', [Str ''x''])])"
  by (simp add: engine_defs globals_get_def module_bindings_def)





text \<open>
  C9. With the empty configuration the dataset comes back as it was given, and it is
  the object that was given.
\<close>

theorem empty_config_identity:
  "apply_transformations rt d [] = (None, d) \<and>
   apply_transformations_call rt h r [] = (Inr r, h)"
  by (simp add: apply_transformations_call_def)

text \<open>
  C10. \<open>apply_transformations\<close> changes the dataset it is given and returns that very
  object. After a call that succeeded, \<open>original_df\<close> and \<open>trans_df\<close> hold the same
  reference, the object behind it is in the transformed state, and no other object of
  the store has changed: nothing holds the state from before the call.
\<close>

theorem apply_button_same_object:
  assumes "original_df s = Some df"
    and "apply_button rt h s (Loaded config) = (None, h', s')"
  shows "apply_transformations_call rt h df config = (Inr df, h') \<and>
         original_df s' = Some df \<and> trans_df s' = Some df \<and>
         apply_transformations rt (h df) config = (None, h' df) \<and>
         (\<forall>r. r \<noteq> df \<longrightarrow> h' r = h r)"
proof -
  obtain e d where run: "apply_transformations rt (h df) config = (e, d)"
    by (cases "apply_transformations rt (h df) config")
  show ?thesis
  proof (cases e)
    case None
    with run assms show ?thesis
      by (auto simp: apply_button_def apply_transformations_call_def)
  next
    case (Some err)
    with run assms show ?thesis
      by (simp add: apply_button_def apply_transformations_call_def)
  qed
qed

text \<open>
  A session whose dataset is object 0 of a store with a second object: after the
  button, both variables refer to object 0, which holds the mapped column.
\<close>

theorem apply_button_same_object_witness:
  "original_df \<lparr>original_df = Some 0, trans_df = None\<rparr> = Some 0 \<and>
   apply_button bare_runtime
     ((\<lambda>r. [])(0 := [(''city'', [Str ''NY'', Str ''LA''])], 1 := [(''id'', [Num 1])]))
     \<lparr>original_df = Some 0, trans_df = None\<rparr>
     (Loaded [(''city'', \<lparr>t_map = Some [''NY'' \<mapsto> Str ''New York''],
                           t_astype = None, t_apply = None\<rparr>)]) =
   (None,
    (\<lambda>r. [])(0 := [(''city'', [Str ''New York'', Str ''LA''])], 1 := [(''id'', [Num 1])]),
    \<lparr>original_df = Some 0, trans_df = Some 0\<rparr>) \<and>
   ((\<lambda>r. [])(0 := [(''city'', [Str ''New York'', Str ''LA''])], 1 := [(''id'', [Num 1])]))
     (0::nat) = [(''city'', [Str ''New York'', Str ''LA''])]"
proof -
  let ?h = "(\<lambda>r. [])(0 := [(''city'', [Str ''NY'', Str ''LA''])], 1 := [(''id'', [Num 1])])
    :: store"
  let ?h' = "(\<lambda>r. [])(0 := [(''city'', [Str ''New York'', Str ''LA''])], 1 := [(''id'', [Num 1])])
    :: store"
  let ?s = "\<lparr>original_df = Some 0, trans_df = None\<rparr>"
  let ?c = "[(''city'', \<lparr>t_map = Some [''NY'' \<mapsto> Str ''New York''],
                           t_astype = None, t_apply = None\<rparr>)]"
  have a: "original_df ?s = Some 0"
    by simp
  have b: "apply_button bare_runtime ?h ?s (Loaded ?c) =
             (None, ?h', \<lparr>original_df = Some 0, trans_df = Some 0\<rparr>)"
    by (simp add: apply_button_def apply_transformations_call_def engine_defs map_defs
        fun_upd_twist)
  show ?thesis
    using apply_button_same_object [OF a b] b by simp
qed

end
